theory Spec2Isabelle
  imports
    Main
    "HOL-Library.AList"
    "HOL-Library.Char_ord"
    "HOL-Library.List_Lexorder"
    "HOL-Library.Product_Lexorder"
begin

section \<open>JSON values and the Python operations the hook applies to them\<close>

text \<open>
  The hook (\<^verbatim>\<open>langfuse_hook.py\<close>) works on values produced by \<^verbatim>\<open>json.loads\<close>.
  A dictionary is an association list: Python dictionaries keep insertion order, and the
  turn assembler iterates \<^verbatim>\<open>parts_map.values()\<close> before a stable sort, so the order is
  observable. Python's \<^verbatim>\<open>None\<close> and JSON's \<^verbatim>\<open>null\<close> are the same value \<open>JNull\<close>.
  JSON numbers are the integers; fractional numbers are not modelled. Strings are byte
  strings (UTF-8): their lexicographic order is the order of Python's code points.
\<close>

datatype json =
    JNull
  | JBool bool
  | JInt int
  | JStr string
  | JList "json list"
  | JObj "(string \<times> json) list"

type_synonym 'v dict = "(string \<times> 'v) list"

text \<open>\<^verbatim>\<open>_as_dict(value)\<close>: the value when it is a dictionary, else the empty one.\<close>

fun as_dict :: "json \<Rightarrow> json dict" where
  "as_dict (JObj kvs) = kvs"
| "as_dict _ = []"

text \<open>\<^verbatim>\<open>d.get(k)\<close>: the stored value, \<^verbatim>\<open>None\<close> when the key is absent.\<close>

definition get :: "json dict \<Rightarrow> string \<Rightarrow> json" where
  "get d k = (case map_of d k of None \<Rightarrow> JNull | Some v \<Rightarrow> v)"

text \<open>\<^verbatim>\<open>d.get(k, default)\<close> on a dictionary of any value type.\<close>

definition get_default :: "'v dict \<Rightarrow> string \<Rightarrow> 'v \<Rightarrow> 'v" where
  "get_default d k dflt = (case map_of d k of None \<Rightarrow> dflt | Some v \<Rightarrow> v)"

text \<open>Python truthiness, as \<^verbatim>\<open>if x\<close>, \<^verbatim>\<open>bool(x)\<close> and \<^verbatim>\<open>x or y\<close> read it.\<close>

fun truthy :: "json \<Rightarrow> bool" where
  "truthy JNull = False"
| "truthy (JBool b) = b"
| "truthy (JInt i) = (i \<noteq> 0)"
| "truthy (JStr s) = (s \<noteq> [])"
| "truthy (JList xs) = (xs \<noteq> [])"
| "truthy (JObj kvs) = (kvs \<noteq> [])"

definition py_or :: "json \<Rightarrow> json \<Rightarrow> json" where
  "py_or a b = (if truthy a then a else b)"

text \<open>\<^verbatim>\<open>sep.join(xs)\<close>.\<close>

fun join :: "string \<Rightarrow> string list \<Rightarrow> string" where
  "join sep [] = []"
| "join sep [x] = x"
| "join sep (x # y # ys) = x @ sep @ join sep (y # ys)"

text \<open>
  \<^verbatim>\<open>s.strip()\<close> removes leading and trailing whitespace. The whitespace characters are
  the ASCII ones of \<^verbatim>\<open>str.isspace\<close> (tab, line feed, vertical tab, form feed, carriage
  return, the four separators 28 to 31, and space); whitespace outside ASCII, which Python
  strips as well, is not represented in byte strings.
\<close>

definition is_space :: "char \<Rightarrow> bool" where
  "is_space c = (of_char c \<in> {9, 10, 11, 12, 13, 28, 29, 30, 31, 32 :: nat})"

definition strip :: "string \<Rightarrow> string" where
  "strip s = rev (dropWhile is_space (rev (dropWhile is_space s)))"

text \<open>
  \<^verbatim>\<open>s.lower()\<close> on the ASCII letters. The hook only compares the lowered role with
  \<^verbatim>\<open>"assistant"\<close>, \<^verbatim>\<open>"user"\<close> and the empty string, and no letter outside ASCII
  lowers to a letter of those words.
\<close>

definition lower_char :: "char \<Rightarrow> char" where
  "lower_char c = (if 65 \<le> (of_char c :: nat) \<and> (of_char c :: nat) \<le> 90
                   then char_of (of_char c + 32 :: nat) else c)"

definition lower :: "string \<Rightarrow> string" where
  "lower s = map lower_char s"

text \<open>\<^verbatim>\<open>str(n)\<close> of an integer: its decimal digits.\<close>

fun digits :: "nat \<Rightarrow> string" where
  "digits n = (if n < 10 then [char_of (48 + n)]
               else digits (n div 10) @ [char_of (48 + n mod 10)])"

declare digits.simps [simp del]

definition int_str :: "int \<Rightarrow> string" where
  "int_str i = (if i < 0 then CHR ''-'' # digits (nat (- i)) else digits (nat i))"

section \<open>Library functions and the outside world\<close>

text \<open>
  Instants are integers (microseconds on the UTC time line); every \<^verbatim>\<open>datetime\<close> the hook
  builds is timezone aware, so any two are comparable.
\<close>

type_synonym datetime = int

text \<open>
  An exception that no \<^verbatim>\<open>except\<close> clause of the hook catches leaves the invocation
  through the handler of \<^verbatim>\<open>__main__\<close>; the state is then not saved.
  The only such exception on JSON input is the one \<^verbatim>\<open>datetime.fromtimestamp\<close> raises
  on a number outside its range.
\<close>

datatype error = OutOfRange

text \<open>
  The functions of the Python library the hook calls, and its configuration:
  \<^item> \<open>from_epoch_seconds n\<close> is \<^verbatim>\<open>datetime.fromtimestamp(float(n), tz=utc)\<close> and
    \<open>from_epoch_millis n\<close> is \<^verbatim>\<open>datetime.fromtimestamp(float(n) / 1000.0, tz=utc)\<close>;
    both raise outside the library's range;
  \<^item> \<open>fromisoformat s\<close> is \<^verbatim>\<open>datetime.fromisoformat(s)\<close>, read in UTC when \<open>s\<close> names no
    zone, and \<open>None\<close> when the library raises (\<^verbatim>\<open>_parse_dt\<close> catches that);
  \<^item> \<open>isoformat t\<close> is \<^verbatim>\<open>t.isoformat()\<close>, as its first character and the rest: the
    rendering of an instant is never the empty string;
  \<^item> \<open>repr_str s\<close> is \<^verbatim>\<open>repr(s)\<close> of a string (quoting and escapes);
  \<^item> \<open>json_dumps v\<close> is \<^verbatim>\<open>json.dumps(v, ensure_ascii=False)\<close>;
  \<^item> \<open>sha256_hexdigest s\<close> is \<^verbatim>\<open>hashlib.sha256(s.encode("utf-8")).hexdigest()\<close>;
  \<^item> \<open>max_message_events\<close> is \<^verbatim>\<open>MAX_MESSAGE_EVENTS_PER_MESSAGE\<close>.
\<close>

record lib =
  from_epoch_seconds :: "int \<Rightarrow> error + datetime"
  from_epoch_millis :: "int \<Rightarrow> error + datetime"
  fromisoformat :: "string \<Rightarrow> datetime option"
  isoformat :: "datetime \<Rightarrow> char \<times> string"
  repr_str :: "string \<Rightarrow> string"
  json_dumps :: "json \<Rightarrow> string"
  sha256_hexdigest :: "string \<Rightarrow> string"
  max_message_events :: int

definition iso :: "lib \<Rightarrow> datetime \<Rightarrow> string" where
  "iso L t = fst (isoformat L t) # snd (isoformat L t)"

text \<open>\<^verbatim>\<open>repr(v)\<close> and \<^verbatim>\<open>str(v)\<close> of a JSON value.\<close>

fun py_repr :: "lib \<Rightarrow> json \<Rightarrow> string" where
  "py_repr L JNull = ''None''"
| "py_repr L (JBool b) = (if b then ''True'' else ''False'')"
| "py_repr L (JInt i) = int_str i"
| "py_repr L (JStr s) = repr_str L s"
| "py_repr L (JList xs) = ''['' @ join '', '' (map (py_repr L) xs) @ '']''"
| "py_repr L (JObj kvs) =
     ''{'' @ join '', '' (map (\<lambda>kv. repr_str L (fst kv) @ '': '' @ py_repr L (snd kv)) kvs) @ ''}''"

definition py_str :: "lib \<Rightarrow> json \<Rightarrow> string" where
  "py_str L v = (case v of JStr s \<Rightarrow> s | _ \<Rightarrow> py_repr L v)"

text \<open>\<^verbatim>\<open>str(x or "")\<close>, the hook's way of reading an identifier or a type.\<close>

definition str_or_empty :: "lib \<Rightarrow> json \<Rightarrow> string" where
  "str_or_empty L x = py_str L (py_or x (JStr []))"

text \<open>\<^verbatim>\<open>_parse_dt(value)\<close>.\<close>

definition parse_dt :: "lib \<Rightarrow> json \<Rightarrow> error + datetime option" where
  "parse_dt L v =
     (case v of
        JNull \<Rightarrow> Inr None
      | JBool b \<Rightarrow> map_sum id Some (from_epoch_seconds L (if b then 1 else 0))
      | JInt n \<Rightarrow>
          (if n > 10000000000 then map_sum id Some (from_epoch_millis L n)
           else map_sum id Some (from_epoch_seconds L n))
      | JStr s \<Rightarrow>
          (let v = strip s in
           if v = [] then Inr None
           else if last v = CHR ''Z'' then Inr (fromisoformat L (butlast v @ ''+00:00''))
           else Inr (fromisoformat L v))
      | _ \<Rightarrow> Inr None)"

text \<open>The rows the assembler builds: a reasoning block, a tool invocation, a text row
  (timestamp, part id, text).\<close>

record reasoning_row =
  rr_id :: string
  rr_text :: string
  rr_timestamp :: datetime
  rr_meta :: json

record tool_row =
  tr_id :: string
  tr_name :: json
  tr_timestamp :: datetime
  tr_status :: string
  tr_input :: string
  tr_output :: string
  tr_meta :: json

type_synonym text_row = "datetime \<times> string \<times> string"

text \<open>The arguments of one call of \<^verbatim>\<open>_emit_turn_trace\<close>, with the message id of the
  \<^verbatim>\<open>_maybe_emit_assistant_turn\<close> call that makes it.\<close>

record turn_call =
  tc_session_id :: string
  tc_message_id :: string
  tc_user_info :: "json dict"
  tc_assistant_info :: "json dict"
  tc_user_message_events :: "json list"
  tc_assistant_message_events :: "json list"
  tc_user_parts :: "json dict"
  tc_assistant_parts :: "json dict"
  tc_input_text :: string
  tc_output_text :: string
  tc_reasoning :: "reasoning_row list"
  tc_tools :: "tool_row list"

text \<open>
  The world of one invocation: \<open>now\<close> is the reading of the wall clock that
  \<^verbatim>\<open>_iso_now()\<close> and \<^verbatim>\<open>_event_captured_at\<close> take, and \<open>clock k\<close> is the \<open>k\<close>-th reading
  (from 0) that one run of an assembly loop takes for a part without a start time.
  \<open>sink_ok c\<close> says whether the client calls that \<^verbatim>\<open>_emit_turn_trace\<close> makes for the
  turn \<open>c\<close> inside its \<^verbatim>\<open>try\<close> block all succeed.
\<close>

record world =
  now :: datetime
  clock :: "nat \<Rightarrow> datetime"
  sink_ok :: "turn_call \<Rightarrow> bool"

section \<open>The turn assembler\<close>

text \<open>
  \<^verbatim>\<open>_parse_dt(_as_dict(p.get("time")).get("start")) or datetime.now(timezone.utc)\<close>,
  with the number of clock readings taken so far.
\<close>

definition start_or_now :: "lib \<Rightarrow> world \<Rightarrow> nat \<Rightarrow> json dict \<Rightarrow> error + (datetime \<times> nat)" where
  "start_or_now L W k p =
     (case parse_dt L (get (as_dict (get p ''time'')) ''start'') of
        Inl e \<Rightarrow> Inl e
      | Inr None \<Rightarrow> Inr (clock W k, Suc k)
      | Inr (Some t) \<Rightarrow> Inr (t, k))"

text \<open>\<^verbatim>\<open>_extract_text_from_parts\<close>: the loop, then the sort, the join and the strip.\<close>

fun extract_rows :: "lib \<Rightarrow> world \<Rightarrow> nat \<Rightarrow> json list \<Rightarrow> text_row list \<Rightarrow> error + text_row list" where
  "extract_rows L W k [] rows = Inr rows"
| "extract_rows L W k (part # rest) rows =
     (let p = as_dict part in
      if get p ''type'' \<noteq> JStr ''text'' then extract_rows L W k rest rows
      else (case get p ''text'' of
              JStr text \<Rightarrow>
                (if text = [] then extract_rows L W k rest rows
                 else (case start_or_now L W k p of
                         Inl e \<Rightarrow> Inl e
                       | Inr (ts, k') \<Rightarrow>
                           extract_rows L W k' rest
                             (rows @ [(ts, str_or_empty L (get p ''id''), text)])))
            | _ \<Rightarrow> extract_rows L W k rest rows))"

definition row_key :: "text_row \<Rightarrow> datetime \<times> string" where
  "row_key r = (fst r, fst (snd r))"

definition assemble_text :: "text_row list \<Rightarrow> string" where
  "assemble_text rows = strip (join [CHR 10] (map (\<lambda>r. snd (snd r)) (sort_key row_key rows)))"

definition extract_text_from_parts :: "lib \<Rightarrow> world \<Rightarrow> json dict \<Rightarrow> error + string" where
  "extract_text_from_parts L W parts_map =
     map_sum id assemble_text (extract_rows L W 0 (map snd parts_map) [])"

text \<open>
  \<^verbatim>\<open>_build_turn_details\<close>. \<open>loop_body\<close> is one pass of the loop once \<^verbatim>\<open>ts\<close> is known;
  \<^verbatim>\<open>_safe_json\<close> is the identity on JSON values.
\<close>

type_synonym rows = "text_row list \<times> reasoning_row list \<times> tool_row list"

definition tool_row_of :: "lib \<Rightarrow> json dict \<Rightarrow> datetime \<Rightarrow> tool_row" where
  "tool_row_of L p ts =
     (let state = as_dict (get p ''state'');
          status = str_or_empty L (get state ''status'');
          input_obj = get state ''input'';
          output_txt = (if status = ''completed'' then get state ''output'' else get state ''error'')
      in \<lparr> tr_id = str_or_empty L (get p ''id''),
           tr_name = py_or (get p ''tool'') (JStr ''tool''),
           tr_timestamp = ts,
           tr_status = status,
           tr_input = (case input_obj of
                         JObj _ \<Rightarrow> json_dumps L input_obj
                       | JList _ \<Rightarrow> json_dumps L input_obj
                       | _ \<Rightarrow> str_or_empty L input_obj),
           tr_output = str_or_empty L output_txt,
           tr_meta = get state ''metadata'' \<rparr>)"

definition loop_body :: "lib \<Rightarrow> json dict \<Rightarrow> datetime \<Rightarrow> rows \<Rightarrow> rows" where
  "loop_body L p ts acc =
     (case acc of (text_rows, reasoning_rows, tools) \<Rightarrow>
      let ptype = str_or_empty L (get p ''type'');
          pid = str_or_empty L (get p ''id'')
      in if ptype = ''text'' then
           (case get p ''text'' of
              JStr txt \<Rightarrow>
                (if txt \<noteq> [] then (text_rows @ [(ts, pid, txt)], reasoning_rows, tools) else acc)
            | _ \<Rightarrow> acc)
         else if ptype = ''reasoning'' then
           (case get p ''text'' of
              JStr txt \<Rightarrow>
                (if txt \<noteq> []
                 then (text_rows,
                       reasoning_rows @ [\<lparr> rr_id = pid, rr_text = txt, rr_timestamp = ts,
                                           rr_meta = get p ''metadata'' \<rparr>],
                       tools)
                 else acc)
            | _ \<Rightarrow> acc)
         else if ptype = ''tool'' then
           (let status = str_or_empty L (get (as_dict (get p ''state'')) ''status'')
            in if status \<noteq> ''completed'' \<and> status \<noteq> ''error'' then acc
               else (text_rows, reasoning_rows, tools @ [tool_row_of L p ts]))
         else acc)"

fun build_rows :: "lib \<Rightarrow> world \<Rightarrow> nat \<Rightarrow> json list \<Rightarrow> rows \<Rightarrow> error + rows" where
  "build_rows L W k [] acc = Inr acc"
| "build_rows L W k (part # rest) acc =
     (case start_or_now L W k (as_dict part) of
        Inl e \<Rightarrow> Inl e
      | Inr (ts, k') \<Rightarrow> build_rows L W k' rest (loop_body L (as_dict part) ts acc))"

definition reasoning_key :: "reasoning_row \<Rightarrow> datetime \<times> string" where
  "reasoning_key r = (rr_timestamp r, rr_id r)"

definition tool_key :: "tool_row \<Rightarrow> datetime \<times> string" where
  "tool_key r = (tr_timestamp r, tr_id r)"

definition build_turn_details ::
  "lib \<Rightarrow> world \<Rightarrow> json dict \<Rightarrow> error + (string \<times> reasoning_row list \<times> tool_row list)" where
  "build_turn_details L W parts_map =
     (case build_rows L W 0 (map snd parts_map) ([], [], []) of
        Inl e \<Rightarrow> Inl e
      | Inr (text_rows, reasoning_rows, tools) \<Rightarrow>
          Inr (assemble_text text_rows,
               sort_key reasoning_key reasoning_rows,
               sort_key tool_key tools))"

section \<open>The persisted state\<close>

text \<open>
  The top-level maps of the state document (\<^verbatim>\<open>_load_state\<close>). The part buffers map a
  message key to the map from part id to part; the other maps hold JSON values.
\<close>

record state =
  messages :: "json dict"
  message_events :: "json list dict"
  user_parts :: "json dict dict"
  assistant_parts :: "json dict dict"
  assistant_finish_seen :: "json dict"
  pending_parts :: "json dict dict"
  message_last_seen :: "json dict"
  part_last_seen :: "json dict"
  emitted :: "json dict"
  session_lifecycle :: "json dict"

definition empty_state :: state where
  "empty_state =
     \<lparr> messages = [], message_events = [], user_parts = [], assistant_parts = [],
       assistant_finish_seen = [], pending_parts = [], message_last_seen = [],
       part_last_seen = [], emitted = [], session_lifecycle = [] \<rparr>"

text \<open>\<^verbatim>\<open>_msg_key\<close> and \<^verbatim>\<open>_turn_key\<close>.\<close>

definition msg_key :: "string \<Rightarrow> string \<Rightarrow> string" where
  "msg_key session_id message_id = session_id @ '':'' @ message_id"

definition turn_key :: "lib \<Rightarrow> string \<Rightarrow> string \<Rightarrow> string" where
  "turn_key L session_id message_id =
     take 24 (sha256_hexdigest L (session_id @ '':'' @ message_id))"

text \<open>\<^verbatim>\<open>_iso_now()\<close>.\<close>

definition iso_now :: "lib \<Rightarrow> world \<Rightarrow> json" where
  "iso_now L W = JStr (iso L (now W))"

text \<open>\<^verbatim>\<open>d.update(other)\<close>: the entries of \<open>other\<close>, in its order.\<close>

definition dict_update :: "'v dict \<Rightarrow> 'v dict \<Rightarrow> 'v dict" where
  "dict_update d other = fold (\<lambda>kv. AList.update (fst kv) (snd kv)) other d"

section \<open>Reading an event\<close>

text \<open>\<^verbatim>\<open>_event_obj\<close>, \<^verbatim>\<open>_event_props\<close> and \<^verbatim>\<open>_event_captured_at\<close>.\<close>

definition event_obj :: "json dict \<Rightarrow> json dict" where
  "event_obj payload = (case get payload ''event'' of JObj ev \<Rightarrow> ev | _ \<Rightarrow> payload)"

definition event_props :: "json dict \<Rightarrow> json dict" where
  "event_props payload = as_dict (get (event_obj payload) ''properties'')"

text \<open>\<^verbatim>\<open>_as_dict(_event_props(payload).get("info"))\<close> and the same for \<^verbatim>\<open>"part"\<close>.\<close>

definition message_info :: "json dict \<Rightarrow> json dict" where
  "message_info payload = as_dict (get (event_props payload) ''info'')"

definition event_part :: "json dict \<Rightarrow> json dict" where
  "event_part payload = as_dict (get (event_props payload) ''part'')"

definition event_captured_at :: "lib \<Rightarrow> world \<Rightarrow> json dict \<Rightarrow> error + datetime" where
  "event_captured_at L W payload =
     (case parse_dt L (get payload ''captured_at'') of
        Inl e \<Rightarrow> Inl e
      | Inr (Some dt) \<Rightarrow> Inr dt
      | Inr None \<Rightarrow>
          (case parse_dt L (get (event_obj payload) ''timestamp'') of
             Inl e \<Rightarrow> Inl e
           | Inr (Some dt) \<Rightarrow> Inr dt
           | Inr None \<Rightarrow> Inr (now W)))"

text \<open>\<^verbatim>\<open>_is_older_event\<close>.\<close>

definition is_older_event :: "lib \<Rightarrow> json dict \<Rightarrow> string \<Rightarrow> datetime \<Rightarrow> error + bool" where
  "is_older_event L last_seen key event_dt =
     (case parse_dt L (get last_seen key) of
        Inl e \<Rightarrow> Inl e
      | Inr None \<Rightarrow> Inr False
      | Inr (Some prev) \<Rightarrow> Inr (event_dt < prev))"

section \<open>The emission gate\<close>

text \<open>
  \<^verbatim>\<open>_append_message_event\<close>. The slice \<^verbatim>\<open>xs[-n:]\<close> follows Python for every integer
  \<open>n\<close>: a start below zero counts from the end and stops at the front.
\<close>

definition slice_from :: "int \<Rightarrow> 'a list \<Rightarrow> 'a list" where
  "slice_from i xs =
     (if i < 0 then drop (nat (int (length xs) + i)) xs else drop (nat i) xs)"

definition append_message_event :: "lib \<Rightarrow> world \<Rightarrow> state \<Rightarrow> string \<Rightarrow> json dict \<Rightarrow> state" where
  "append_message_event L W s key info =
     (let events = get_default (message_events s) key [] @
                     [JObj [(''captured_at'', iso_now L W), (''info'', JObj info)]];
          kept = (if int (length events) > max_message_events L
                  then slice_from (- max_message_events L) events else events)
      in s\<lparr> message_events := AList.update key kept (message_events s) \<rparr>)"

text \<open>
  \<^verbatim>\<open>_emit_turn_trace\<close>. The creation time is parsed before the \<^verbatim>\<open>try\<close> block, so a
  number out of range there leaves the function before any client call. Every
  exception of the client calls is caught inside, and the function returns nothing
  either way: its caller sees only whether it returned. The result is the list of
  sink calls made, each with its outcome, and whether the function returned.
\<close>

definition emit_turn_trace :: "lib \<Rightarrow> world \<Rightarrow> turn_call \<Rightarrow> (turn_call \<times> bool) list \<times> (error + unit)" where
  "emit_turn_trace L W c =
     (case parse_dt L (get (as_dict (get (tc_assistant_info c) ''time'')) ''created'') of
        Inl e \<Rightarrow> ([], Inl e)
      | Inr _ \<Rightarrow> ([(c, sink_ok W c)], Inr ()))"

text \<open>\<^verbatim>\<open>_cleanup_emitted_message_buffers\<close>.\<close>

definition cleanup_emitted_message_buffers :: "state \<Rightarrow> string \<Rightarrow> string \<Rightarrow> state" where
  "cleanup_emitted_message_buffers s session_id message_id =
     (let key = msg_key session_id message_id
      in s\<lparr> assistant_parts := AList.delete key (assistant_parts s),
             message_events := AList.delete key (message_events s),
             assistant_finish_seen := AList.delete key (assistant_finish_seen s) \<rparr>)"

text \<open>The purge at the end of \<^verbatim>\<open>_maybe_emit_assistant_turn\<close> (``Keep memory bounded'').\<close>

definition purge_turn :: "state \<Rightarrow> string \<Rightarrow> string \<Rightarrow> state" where
  "purge_turn s assistant_key user_key =
     (let s1 = s\<lparr> assistant_parts := AList.delete assistant_key (assistant_parts s),
                   message_events := AList.delete assistant_key (message_events s),
                   assistant_finish_seen := AList.delete assistant_key (assistant_finish_seen s) \<rparr>
      in if user_key \<noteq> []
         then s1\<lparr> user_parts := AList.delete user_key (user_parts s1),
                   message_events := AList.delete user_key (message_events s1) \<rparr>
         else s1)"

text \<open>
  The key of the user message an assistant message answers:
  \<^verbatim>\<open>parent_id = str(info.get("parentID") or "")\<close> and
  \<^verbatim>\<open>user_key = _msg_key(session_id, parent_id) if parent_id else ""\<close>.
\<close>

definition linked_user_key :: "lib \<Rightarrow> string \<Rightarrow> json dict \<Rightarrow> string" where
  "linked_user_key L session_id info =
     (let parent_id = str_or_empty L (get info ''parentID'')
      in if parent_id \<noteq> [] then msg_key session_id parent_id else [])"

text \<open>
  \<^verbatim>\<open>_maybe_emit_assistant_turn\<close>. The result is the list of sink calls made and either
  the new state or the exception that ended the invocation.
\<close>

type_synonym outcome = "(turn_call \<times> bool) list \<times> (error + state)"

definition maybe_emit_assistant_turn ::
  "lib \<Rightarrow> world \<Rightarrow> state \<Rightarrow> string \<Rightarrow> string \<Rightarrow> json dict \<Rightarrow> outcome" where
  "maybe_emit_assistant_turn L W s session_id message_id info =
     (let turn_id = turn_key L session_id message_id in
      if truthy (get (emitted s) turn_id) then ([], Inr s)
      else
        let user_key = linked_user_key L session_id info;
            assistant_key = msg_key session_id message_id;
            user_info = as_dict (get (messages s) user_key);
            user_message_events =
              (if user_key \<noteq> [] then get_default (message_events s) user_key [] else []);
            assistant_message_events = get_default (message_events s) assistant_key [];
            user_parts_map = get_default (user_parts s) user_key [];
            assistant_parts_map = get_default (assistant_parts s) assistant_key []
        in case extract_text_from_parts L W user_parts_map of
             Inl e \<Rightarrow> ([], Inl e)
           | Inr input_text \<Rightarrow>
               (case build_turn_details L W assistant_parts_map of
                  Inl e \<Rightarrow> ([], Inl e)
                | Inr (output_text, reasoning, tools) \<Rightarrow>
                    if output_text = [] \<and> reasoning = [] \<and> tools = [] then ([], Inr s)
                    else
                      (case emit_turn_trace L W
                              \<lparr> tc_session_id = session_id,
                                tc_message_id = message_id,
                                tc_user_info = user_info,
                                tc_assistant_info = info,
                                tc_user_message_events = user_message_events,
                                tc_assistant_message_events = assistant_message_events,
                                tc_user_parts = user_parts_map,
                                tc_assistant_parts = assistant_parts_map,
                                tc_input_text = input_text,
                                tc_output_text = output_text,
                                tc_reasoning = reasoning,
                                tc_tools = tools \<rparr> of
                         (calls, Inl e) \<Rightarrow> (calls, Inl e)
                       | (calls, Inr _) \<Rightarrow>
                           (calls,
                            Inr (purge_turn
                                   (s\<lparr> emitted := AList.update turn_id (iso_now L W) (emitted s) \<rparr>)
                                   assistant_key user_key)))))"

section \<open>The reconciliation engine\<close>

text \<open>
  The reconciliation of pending parts in \<^verbatim>\<open>_handle_message_updated\<close>
  (``Reconcile out-of-order message.part.updated events'').
\<close>

definition reconcile_pending :: "state \<Rightarrow> string \<Rightarrow> string \<Rightarrow> state" where
  "reconcile_pending s key role =
     (let pending = get_default (pending_parts s) key [];
          s1 = s\<lparr> pending_parts := AList.delete key (pending_parts s) \<rparr>
      in if pending \<noteq> [] then
           (if role = ''assistant'' then
              s1\<lparr> assistant_parts :=
                    AList.update key (dict_update (get_default (assistant_parts s1) key []) pending)
                      (assistant_parts s1) \<rparr>
            else if role = ''user'' then
              s1\<lparr> user_parts :=
                    AList.update key (dict_update (get_default (user_parts s1) key []) pending)
                      (user_parts s1) \<rparr>
            else s1\<lparr> pending_parts := AList.update key pending (pending_parts s1) \<rparr>)
         else s1)"

text \<open>\<^verbatim>\<open>_handle_message_updated\<close>.\<close>

definition handle_message_updated ::
  "lib \<Rightarrow> world \<Rightarrow> state \<Rightarrow> json dict \<Rightarrow> string \<Rightarrow> outcome" where
  "handle_message_updated L W s payload session_id =
     (let info = message_info payload;
          message_id = str_or_empty L (get info ''id'')
      in if message_id = [] then ([], Inr s)
         else
           let key = msg_key session_id message_id in
           case event_captured_at L W payload of
             Inl e \<Rightarrow> ([], Inl e)
           | Inr event_dt \<Rightarrow>
               (case is_older_event L (message_last_seen s) key event_dt of
                  Inl e \<Rightarrow> ([], Inl e)
                | Inr True \<Rightarrow> ([], Inr s)
                | Inr False \<Rightarrow>
                    let s1 = s\<lparr> message_last_seen :=
                                  AList.update key (JStr (iso L event_dt)) (message_last_seen s) \<rparr>;
                        s2 = s1\<lparr> messages := AList.update key (JObj info) (messages s1) \<rparr>;
                        role = lower (str_or_empty L (get info ''role''))
                    in if role = ''assistant''
                          \<and> truthy (get (emitted s2) (turn_key L session_id message_id))
                       then ([], Inr (cleanup_emitted_message_buffers s2 session_id message_id))
                       else
                         let s3 = append_message_event L W s2 key info;
                             s4 = reconcile_pending s3 key role
                         in if role \<noteq> ''assistant'' then ([], Inr s4)
                            else
                              let completed = truthy (get (as_dict (get info ''time'')) ''completed'');
                                  s5 = (if completed
                                        then s4\<lparr> assistant_finish_seen :=
                                                   AList.update key (iso_now L W)
                                                     (assistant_finish_seen s4) \<rparr>
                                        else s4)
                              in if completed
                                 then maybe_emit_assistant_turn L W s5 session_id message_id info
                                 else ([], Inr s5)))"

text \<open>
  \<^verbatim>\<open>_handle_message_part_updated\<close>. \<open>infer_role\<close> is its fallback inference
  (``when message.updated has not arrived yet''): the role to file the part under, or
  \<open>None\<close> when the part stays pending. \<open>store_part\<close> is
  \<^verbatim>\<open>state[bucket].setdefault(key, {}); state[bucket][key][part_id] = part\<close>.
\<close>

definition structural_types :: "string list" where
  "structural_types =
     [''reasoning'', ''tool'', ''step-start'', ''step-finish'', ''patch'', ''agent'',
      ''retry'', ''compaction'']"

definition infer_role :: "string \<Rightarrow> string \<Rightarrow> string option" where
  "infer_role role part_type =
     (if role = [] then
        (if part_type \<in> set structural_types then Some ''assistant''
         else if part_type = ''text'' then None
         else Some role)
      else Some role)"

definition store_part :: "json dict dict \<Rightarrow> string \<Rightarrow> string \<Rightarrow> json \<Rightarrow> json dict dict" where
  "store_part bucket key part_id part =
     AList.update key (AList.update part_id part (get_default bucket key [])) bucket"

definition handle_message_part_updated ::
  "lib \<Rightarrow> world \<Rightarrow> state \<Rightarrow> json dict \<Rightarrow> string \<Rightarrow> outcome" where
  "handle_message_part_updated L W s payload session_id =
     (let part = event_part payload;
          message_id = str_or_empty L (get part ''messageID'');
          part_id = str_or_empty L (get part ''id'')
      in if message_id = [] \<or> part_id = [] then ([], Inr s)
         else
           let key = msg_key session_id message_id in
           case event_captured_at L W payload of
             Inl e \<Rightarrow> ([], Inl e)
           | Inr event_dt \<Rightarrow>
               let part_key = key @ '':'' @ part_id in
               (case is_older_event L (part_last_seen s) part_key event_dt of
                  Inl e \<Rightarrow> ([], Inl e)
                | Inr True \<Rightarrow> ([], Inr s)
                | Inr False \<Rightarrow>
                    let s1 = s\<lparr> part_last_seen :=
                                  AList.update part_key (JStr (iso L event_dt)) (part_last_seen s) \<rparr>
                    in if truthy (get (emitted s1) (turn_key L session_id message_id))
                       then ([], Inr (cleanup_emitted_message_buffers s1 session_id message_id))
                       else
                         let msg = as_dict (get (messages s1) key);
                             part_type = str_or_empty L (get part ''type'')
                         in (case infer_role (lower (str_or_empty L (get msg ''role''))) part_type of
                              None \<Rightarrow>
                                ([], Inr (s1\<lparr> pending_parts :=
                                               store_part (pending_parts s1) key part_id (JObj part) \<rparr>))
                            | Some role \<Rightarrow>
                                let s2 = (if role = ''assistant''
                                          then s1\<lparr> assistant_parts :=
                                                     store_part (assistant_parts s1) key part_id (JObj part) \<rparr>
                                          else s1\<lparr> user_parts :=
                                                     store_part (user_parts s1) key part_id (JObj part) \<rparr>)
                                in if role = ''assistant'' then
                                     (let s3 = (if part_type = ''step-finish''
                                                then s2\<lparr> assistant_finish_seen :=
                                                           AList.update key (iso_now L W)
                                                             (assistant_finish_seen s2) \<rparr>
                                                else s2);
                                          completed = (if msg \<noteq> []
                                                       then truthy (get (as_dict (get msg ''time'')) ''completed'')
                                                       else False);
                                          finish_seen = truthy (get (assistant_finish_seen s3) key)
                                      in (if completed \<or> finish_seen
                                          then maybe_emit_assistant_turn L W s3 session_id message_id
                                                 (if msg \<noteq> [] then msg
                                                  else [(''id'', JStr message_id),
                                                        (''role'', JStr ''assistant'')])
                                          else ([], Inr s3)))
                                   else ([], Inr s2))))"

section \<open>Sequences of invocations\<close>

text \<open>
  One invocation handles one event: \<^verbatim>\<open>main\<close> dispatches on the event name to one of the
  two handlers, for the session id it reads from the payload. \<^verbatim>\<open>_save_state\<close> is reached
  only when the handler returns, so an invocation that ends in an exception leaves the
  persisted state as it was. The session events and the lifecycle flush
  (\<^verbatim>\<open>_flush_pending_assistant_turns\<close>, which \<^verbatim>\<open>main\<close> also runs after a part event once
  the session's last lifecycle event is terminal) are not part of this development.
\<close>

datatype event = MessageUpdated "json dict" | MessagePartUpdated "json dict"

fun step :: "lib \<Rightarrow> world \<Rightarrow> state \<Rightarrow> string \<Rightarrow> event \<Rightarrow> outcome" where
  "step L W s session_id (MessageUpdated payload) = handle_message_updated L W s payload session_id"
| "step L W s session_id (MessagePartUpdated payload) =
     handle_message_part_updated L W s payload session_id"

definition persist :: "state \<Rightarrow> outcome \<Rightarrow> state" where
  "persist s out = (case snd out of Inl e \<Rightarrow> s | Inr s' \<Rightarrow> s')"

fun run :: "lib \<Rightarrow> state \<Rightarrow> (world \<times> string \<times> event) list \<Rightarrow> (turn_call \<times> bool) list \<times> state" where
  "run L s [] = ([], s)"
| "run L s (invocation # rest) =
     (let out = step L (fst invocation) s (fst (snd invocation)) (snd (snd invocation));
          later = run L (persist s out) rest
      in (fst out @ fst later, snd later))"

text \<open>The sink calls made for one (session id, assistant message id) pair.\<close>

definition calls_for :: "string \<Rightarrow> string \<Rightarrow> (turn_call \<times> bool) list \<Rightarrow> (turn_call \<times> bool) list" where
  "calls_for session_id message_id calls =
     filter (\<lambda>c. tc_session_id (fst c) = session_id \<and> tc_message_id (fst c) = message_id) calls"


section \<open>Vocabulary of the properties\<close>


text \<open>A part of a given type; the text of a part; a text part with content.\<close>

definition has_type :: "json dict \<Rightarrow> string \<Rightarrow> bool" where
  "has_type p t = (get p ''type'' = JStr t)"










text \<open>The keys of a dictionary, and the four maps that only ever grow.\<close>

definition keys :: "'v dict \<Rightarrow> string set" where
  "keys d = fst ` set d"

definition watermarks_kept :: "state \<Rightarrow> state \<Rightarrow> bool" where
  "watermarks_kept s s' =
     (keys (message_last_seen s) \<subseteq> keys (message_last_seen s')
      \<and> keys (part_last_seen s) \<subseteq> keys (part_last_seen s')
      \<and> keys (messages s) \<subseteq> keys (messages s')
      \<and> keys (emitted s) \<subseteq> keys (emitted s'))"

text \<open>
  The state of \<^verbatim>\<open>_handle_message_updated\<close> once the event is accepted (last-seen and
  message record written), and of \<^verbatim>\<open>_handle_message_part_updated\<close> likewise.
\<close>

definition accepted_message :: "lib \<Rightarrow> state \<Rightarrow> json dict \<Rightarrow> string \<Rightarrow> datetime \<Rightarrow> state" where
  "accepted_message L s info key dt =
     s\<lparr> message_last_seen := AList.update key (JStr (iso L dt)) (message_last_seen s),
        messages := AList.update key (JObj info) (messages s) \<rparr>"

definition accepted_part :: "lib \<Rightarrow> state \<Rightarrow> string \<Rightarrow> datetime \<Rightarrow> state" where
  "accepted_part L s part_key dt =
     s\<lparr> part_last_seen := AList.update part_key (JStr (iso L dt)) (part_last_seen s) \<rparr>"

text \<open>
  What one call of the emission gate does to the sink and to the emitted markers, seen
  from the invocation that started in state \<open>s0\<close>.
\<close>

definition emission_of ::
  "lib \<Rightarrow> world \<Rightarrow> state \<Rightarrow> string \<Rightarrow> string \<Rightarrow> outcome \<Rightarrow> bool" where
  "emission_of L W s0 sid mid out =
     (fst out = [] \<and> emitted (persist s0 out) = emitted s0
      \<or> (\<exists>c. fst out = [(c, sink_ok W c)] \<and> tc_session_id c = sid \<and> tc_message_id c = mid
            \<and> \<not> truthy (get (emitted s0) (turn_key L sid mid))
            \<and> emitted (persist s0 out) =
                AList.update (turn_key L sid mid) (iso_now L W) (emitted s0)))"

section \<open>A stand-in library and world for concrete runs\<close>

text \<open>
  A small library to run the definitions on: an instant is rendered as \<^verbatim>\<open>@\<close> and its
  decimal digits and read back from that form, the hash is the identity, and
  \<^verbatim>\<open>repr\<close> puts a string in single quotes. The stand-in worlds read the clock as 7 and
  then 0, 1, 2, ... inside a loop; the sink accepts every turn in the first and fails on
  every turn in the second.
\<close>

definition stub_fromisoformat :: "string \<Rightarrow> datetime option" where
  "stub_fromisoformat s =
     (case s of
        [] \<Rightarrow> None
      | c # ds \<Rightarrow>
          if c = CHR ''@'' \<and> ds \<noteq> [] \<and> list_all (\<lambda>d. 48 \<le> (of_char d :: nat) \<and> (of_char d :: nat) \<le> 57) ds
          then Some (foldl (\<lambda>n d. 10 * n + (of_char d - 48)) 0 ds)
          else None)"

definition stub_lib :: lib where
  "stub_lib =
     \<lparr> from_epoch_seconds = (\<lambda>n. Inr (n * 1000000)),
       from_epoch_millis = (\<lambda>n. Inr (n * 1000)),
       fromisoformat = stub_fromisoformat,
       isoformat = (\<lambda>t. (CHR ''@'', int_str t)),
       repr_str = (\<lambda>s. [CHR 39] @ s @ [CHR 39]),
       json_dumps = (\<lambda>v. ''{}''),
       sha256_hexdigest = (\<lambda>s. s),
       max_message_events = 30 \<rparr>"

definition stub_world :: world where
  "stub_world = \<lparr> now = 7, clock = (\<lambda>k. int k), sink_ok = (\<lambda>c. True) \<rparr>"

definition failing_world :: world where
  "failing_world = \<lparr> now = 7, clock = (\<lambda>k. int k), sink_ok = (\<lambda>c. False) \<rparr>"

text \<open>Events and parts of a session \<^verbatim>\<open>s1\<close> with a user message \<^verbatim>\<open>u1\<close> and an assistant
  message \<^verbatim>\<open>a1\<close>.\<close>

definition text_part :: "string \<Rightarrow> string \<Rightarrow> string \<Rightarrow> int \<Rightarrow> json dict" where
  "text_part part_id message_id text start =
     [(''id'', JStr part_id), (''messageID'', JStr message_id), (''type'', JStr ''text''),
      (''text'', JStr text), (''time'', JObj [(''start'', JInt start)])]"

definition part_event :: "int \<Rightarrow> json dict \<Rightarrow> json dict" where
  "part_event captured part =
     [(''captured_at'', JInt captured),
      (''event'', JObj [(''type'', JStr ''message.part.updated''),
                        (''properties'', JObj [(''part'', JObj part)])])]"

definition message_event :: "int \<Rightarrow> json dict \<Rightarrow> json dict" where
  "message_event captured info =
     [(''captured_at'', JInt captured),
      (''event'', JObj [(''type'', JStr ''message.updated''),
                        (''properties'', JObj [(''info'', JObj info)])])]"

section \<open>Facts about the Python operations\<close>

lemma one_error: "(e :: error) = OutOfRange"
  by (cases e) simp

lemma get_update [simp]: "get (AList.update k v d) k' = (if k' = k then v else get d k')"
  by (simp add: get_def update_conv')

lemma get_delete [simp]: "get (AList.delete k d) k' = (if k' = k then JNull else get d k')"
  by (simp add: get_def delete_conv')

lemma get_default_update [simp]:
  "get_default (AList.update k v d) k' dflt = (if k' = k then v else get_default d k' dflt)"
  by (simp add: get_default_def update_conv')

lemma get_default_delete [simp]:
  "get_default (AList.delete k d) k' dflt = (if k' = k then dflt else get_default d k' dflt)"
  by (simp add: get_default_def delete_conv')

lemma keys_update [simp]: "keys (AList.update k v d) = insert k (keys d)"
  by (simp add: keys_def dom_update)

lemma truthy_iso_now [simp]: "truthy (iso_now L W)"
  by (simp add: iso_now_def iso_def)

lemma str_or_empty_JStr [simp]: "str_or_empty L (JStr s) = s"
  by (simp add: str_or_empty_def py_or_def py_str_def)










section \<open>The turn assembler\<close>










section \<open>The emission gate and the handlers, path by path\<close>

lemma msg_key_nonempty [simp]: "msg_key a b \<noteq> []" "[] \<noteq> msg_key a b"
  by (simp_all add: msg_key_def)

lemma persist_simps [simp]: "persist s (c, Inr s') = s'" "persist s (c, Inl e) = s"
  by (simp_all add: persist_def)

lemma append_message_event_frame [simp]:
  "messages (append_message_event L W s key info) = messages s"
  "user_parts (append_message_event L W s key info) = user_parts s"
  "assistant_parts (append_message_event L W s key info) = assistant_parts s"
  "assistant_finish_seen (append_message_event L W s key info) = assistant_finish_seen s"
  "pending_parts (append_message_event L W s key info) = pending_parts s"
  "message_last_seen (append_message_event L W s key info) = message_last_seen s"
  "part_last_seen (append_message_event L W s key info) = part_last_seen s"
  "emitted (append_message_event L W s key info) = emitted s"
  "session_lifecycle (append_message_event L W s key info) = session_lifecycle s"
  by (simp_all add: append_message_event_def Let_def)

lemma reconcile_pending_frame [simp]:
  "messages (reconcile_pending s key role) = messages s"
  "message_events (reconcile_pending s key role) = message_events s"
  "assistant_finish_seen (reconcile_pending s key role) = assistant_finish_seen s"
  "message_last_seen (reconcile_pending s key role) = message_last_seen s"
  "part_last_seen (reconcile_pending s key role) = part_last_seen s"
  "emitted (reconcile_pending s key role) = emitted s"
  "session_lifecycle (reconcile_pending s key role) = session_lifecycle s"
  by (simp_all add: reconcile_pending_def Let_def)

lemma cleanup_frame [simp]:
  "messages (cleanup_emitted_message_buffers s sid mid) = messages s"
  "user_parts (cleanup_emitted_message_buffers s sid mid) = user_parts s"
  "pending_parts (cleanup_emitted_message_buffers s sid mid) = pending_parts s"
  "message_last_seen (cleanup_emitted_message_buffers s sid mid) = message_last_seen s"
  "part_last_seen (cleanup_emitted_message_buffers s sid mid) = part_last_seen s"
  "emitted (cleanup_emitted_message_buffers s sid mid) = emitted s"
  "session_lifecycle (cleanup_emitted_message_buffers s sid mid) = session_lifecycle s"
  "assistant_parts (cleanup_emitted_message_buffers s sid mid) =
     AList.delete (msg_key sid mid) (assistant_parts s)"
  "message_events (cleanup_emitted_message_buffers s sid mid) =
     AList.delete (msg_key sid mid) (message_events s)"
  "assistant_finish_seen (cleanup_emitted_message_buffers s sid mid) =
     AList.delete (msg_key sid mid) (assistant_finish_seen s)"
  by (simp_all add: cleanup_emitted_message_buffers_def Let_def)

lemma purge_turn_frame [simp]:
  "messages (purge_turn s ak uk) = messages s"
  "pending_parts (purge_turn s ak uk) = pending_parts s"
  "message_last_seen (purge_turn s ak uk) = message_last_seen s"
  "part_last_seen (purge_turn s ak uk) = part_last_seen s"
  "emitted (purge_turn s ak uk) = emitted s"
  "session_lifecycle (purge_turn s ak uk) = session_lifecycle s"
  "assistant_parts (purge_turn s ak uk) = AList.delete ak (assistant_parts s)"
  "assistant_finish_seen (purge_turn s ak uk) = AList.delete ak (assistant_finish_seen s)"
  by (simp_all add: purge_turn_def Let_def)

lemma purge_turn_buffers:
  "message_events (purge_turn s ak uk) =
     (if uk \<noteq> [] then AList.delete uk (AList.delete ak (message_events s))
      else AList.delete ak (message_events s))"
  "user_parts (purge_turn s ak uk) =
     (if uk \<noteq> [] then AList.delete uk (user_parts s) else user_parts s)"
  by (simp_all add: purge_turn_def Let_def)

lemma accepted_frame [simp]:
  "emitted (accepted_message L s info key dt) = emitted s"
  "pending_parts (accepted_message L s info key dt) = pending_parts s"
  "user_parts (accepted_message L s info key dt) = user_parts s"
  "assistant_parts (accepted_message L s info key dt) = assistant_parts s"
  "part_last_seen (accepted_message L s info key dt) = part_last_seen s"
  "assistant_finish_seen (accepted_message L s info key dt) = assistant_finish_seen s"
  "message_events (accepted_message L s info key dt) = message_events s"
  "message_last_seen (accepted_message L s info key dt) =
     AList.update key (JStr (iso L dt)) (message_last_seen s)"
  "messages (accepted_message L s info key dt) = AList.update key (JObj info) (messages s)"
  "emitted (accepted_part L s pk dt) = emitted s"
  "pending_parts (accepted_part L s pk dt) = pending_parts s"
  "user_parts (accepted_part L s pk dt) = user_parts s"
  "assistant_parts (accepted_part L s pk dt) = assistant_parts s"
  "messages (accepted_part L s pk dt) = messages s"
  "message_last_seen (accepted_part L s pk dt) = message_last_seen s"
  "assistant_finish_seen (accepted_part L s pk dt) = assistant_finish_seen s"
  "message_events (accepted_part L s pk dt) = message_events s"
  "part_last_seen (accepted_part L s pk dt) = AList.update pk (JStr (iso L dt)) (part_last_seen s)"
  by (simp_all add: accepted_message_def accepted_part_def)

text \<open>The three ways \<^verbatim>\<open>_maybe_emit_assistant_turn\<close> ends.\<close>

lemma maybe_emit_cases:
  "maybe_emit_assistant_turn L W s sid mid info = ([], Inr s)
   \<or> maybe_emit_assistant_turn L W s sid mid info = ([], Inl OutOfRange)
   \<or> (\<exists>c. maybe_emit_assistant_turn L W s sid mid info =
          ([(c, sink_ok W c)],
           Inr (purge_turn (s\<lparr> emitted := AList.update (turn_key L sid mid) (iso_now L W) (emitted s) \<rparr>)
                  (msg_key sid mid) (linked_user_key L sid info)))
        \<and> tc_session_id c = sid \<and> tc_message_id c = mid
        \<and> \<not> truthy (get (emitted s) (turn_key L sid mid)))"
  unfolding maybe_emit_assistant_turn_def Let_def
  by (auto simp: emit_turn_trace_def one_error split: sum.splits prod.splits)

lemma maybe_emit_marked:
  "truthy (get (emitted s) (turn_key L sid mid)) \<Longrightarrow>
     maybe_emit_assistant_turn L W s sid mid info = ([], Inr s)"
  by (simp add: maybe_emit_assistant_turn_def)

lemma persist_maybe_emit:
  assumes "P s0" and "P s"
    and "P (purge_turn (s\<lparr> emitted := AList.update (turn_key L sid mid) (iso_now L W) (emitted s) \<rparr>)
              (msg_key sid mid) (linked_user_key L sid info))"
  shows "P (persist s0 (maybe_emit_assistant_turn L W s sid mid info))"
  using maybe_emit_cases [of L W s sid mid info] assms by (auto simp: persist_def)

text \<open>\<^verbatim>\<open>_handle_message_updated\<close>: the early returns, and the accepted event.\<close>

lemma hmu_no_id:
  "str_or_empty L (get (message_info payload) ''id'') = [] \<Longrightarrow>
     handle_message_updated L W s payload sid = ([], Inr s)"
  by (simp add: handle_message_updated_def)

lemma hmu_no_time:
  "str_or_empty L (get (message_info payload) ''id'') \<noteq> [] \<Longrightarrow>
   event_captured_at L W payload = Inl e \<Longrightarrow>
     handle_message_updated L W s payload sid = ([], Inl e)"
  by (simp add: handle_message_updated_def)

lemma hmu_stale:
  "str_or_empty L (get (message_info payload) ''id'') = mid \<Longrightarrow> mid \<noteq> [] \<Longrightarrow>
   event_captured_at L W payload = Inr dt \<Longrightarrow>
   is_older_event L (message_last_seen s) (msg_key sid mid) dt = Inr True \<Longrightarrow>
     handle_message_updated L W s payload sid = ([], Inr s)"
  by (simp add: handle_message_updated_def)

lemma hmu_stale_raise:
  "str_or_empty L (get (message_info payload) ''id'') = mid \<Longrightarrow> mid \<noteq> [] \<Longrightarrow>
   event_captured_at L W payload = Inr dt \<Longrightarrow>
   is_older_event L (message_last_seen s) (msg_key sid mid) dt = Inl e \<Longrightarrow>
     handle_message_updated L W s payload sid = ([], Inl e)"
  by (simp add: handle_message_updated_def)

lemma hmu_accepted:
  assumes "str_or_empty L (get (message_info payload) ''id'') = mid" and "mid \<noteq> []"
    and "event_captured_at L W payload = Inr dt"
    and "is_older_event L (message_last_seen s) (msg_key sid mid) dt = Inr False"
  shows "handle_message_updated L W s payload sid =
     (let info = message_info payload;
          key = msg_key sid mid;
          s2 = accepted_message L s info key dt;
          role = lower (str_or_empty L (get info ''role''));
          s4 = reconcile_pending (append_message_event L W s2 key info) key role
      in if role = ''assistant'' \<and> truthy (get (emitted s) (turn_key L sid mid))
         then ([], Inr (cleanup_emitted_message_buffers s2 sid mid))
         else if role \<noteq> ''assistant'' then ([], Inr s4)
         else if truthy (get (as_dict (get info ''time'')) ''completed'')
         then maybe_emit_assistant_turn L W
                (s4\<lparr> assistant_finish_seen :=
                       AList.update key (iso_now L W) (assistant_finish_seen s) \<rparr>)
                sid mid info
         else ([], Inr s4))"
  using assms by (simp add: handle_message_updated_def accepted_message_def Let_def)

text \<open>\<^verbatim>\<open>_handle_message_part_updated\<close>: the early returns, and the accepted event.\<close>

lemma hpu_no_id:
  "str_or_empty L (get (event_part payload) ''messageID'') = []
   \<or> str_or_empty L (get (event_part payload) ''id'') = [] \<Longrightarrow>
     handle_message_part_updated L W s payload sid = ([], Inr s)"
  by (auto simp: handle_message_part_updated_def)

lemma hpu_no_time:
  "str_or_empty L (get (event_part payload) ''messageID'') \<noteq> [] \<Longrightarrow>
   str_or_empty L (get (event_part payload) ''id'') \<noteq> [] \<Longrightarrow>
   event_captured_at L W payload = Inl e \<Longrightarrow>
     handle_message_part_updated L W s payload sid = ([], Inl e)"
  by (simp add: handle_message_part_updated_def)

lemma hpu_stale:
  "str_or_empty L (get (event_part payload) ''messageID'') = mid \<Longrightarrow> mid \<noteq> [] \<Longrightarrow>
   str_or_empty L (get (event_part payload) ''id'') = pid \<Longrightarrow> pid \<noteq> [] \<Longrightarrow>
   event_captured_at L W payload = Inr dt \<Longrightarrow>
   is_older_event L (part_last_seen s) (msg_key sid mid @ '':'' @ pid) dt = Inr True \<Longrightarrow>
     handle_message_part_updated L W s payload sid = ([], Inr s)"
  by (simp add: handle_message_part_updated_def)

lemma hpu_stale_raise:
  "str_or_empty L (get (event_part payload) ''messageID'') = mid \<Longrightarrow> mid \<noteq> [] \<Longrightarrow>
   str_or_empty L (get (event_part payload) ''id'') = pid \<Longrightarrow> pid \<noteq> [] \<Longrightarrow>
   event_captured_at L W payload = Inr dt \<Longrightarrow>
   is_older_event L (part_last_seen s) (msg_key sid mid @ '':'' @ pid) dt = Inl e \<Longrightarrow>
     handle_message_part_updated L W s payload sid = ([], Inl e)"
  by (simp add: handle_message_part_updated_def)

lemma hpu_accepted:
  assumes "str_or_empty L (get (event_part payload) ''messageID'') = mid" and "mid \<noteq> []"
    and "str_or_empty L (get (event_part payload) ''id'') = pid" and "pid \<noteq> []"
    and "event_captured_at L W payload = Inr dt"
    and "is_older_event L (part_last_seen s) (msg_key sid mid @ '':'' @ pid) dt = Inr False"
  shows "handle_message_part_updated L W s payload sid =
     (let part = event_part payload;
          key = msg_key sid mid;
          s1 = accepted_part L s (key @ '':'' @ pid) dt;
          msg = as_dict (get (messages s) key);
          part_type = str_or_empty L (get part ''type'')
      in if truthy (get (emitted s) (turn_key L sid mid))
         then ([], Inr (cleanup_emitted_message_buffers s1 sid mid))
         else
           (case infer_role (lower (str_or_empty L (get msg ''role''))) part_type of
              None \<Rightarrow>
                ([], Inr (s1\<lparr> pending_parts := store_part (pending_parts s) key pid (JObj part) \<rparr>))
            | Some role \<Rightarrow>
                if role \<noteq> ''assistant''
                then ([], Inr (s1\<lparr> user_parts := store_part (user_parts s) key pid (JObj part) \<rparr>))
                else
                  let s3 = s1\<lparr> assistant_parts := store_part (assistant_parts s) key pid (JObj part),
                               assistant_finish_seen :=
                                 (if part_type = ''step-finish''
                                  then AList.update key (iso_now L W) (assistant_finish_seen s)
                                  else assistant_finish_seen s) \<rparr>
                  in if (msg \<noteq> [] \<and> truthy (get (as_dict (get msg ''time'')) ''completed''))
                        \<or> truthy (get (assistant_finish_seen s3) key)
                     then maybe_emit_assistant_turn L W s3 sid mid
                            (if msg \<noteq> [] then msg
                             else [(''id'', JStr mid), (''role'', JStr ''assistant'')])
                     else ([], Inr s3)))"
  using assms
  by (simp add: handle_message_part_updated_def accepted_part_def Let_def split: option.splits)

lemma sum_bool_cases:
  obtains (raise) "(r :: error + bool) = Inl OutOfRange" | (yes) "r = Inr True" | (no) "r = Inr False"
  by (cases r) (auto simp: one_error)

lemma sum_time_cases:
  obtains (raise) "(r :: error + datetime) = Inl OutOfRange" | (at) dt where "r = Inr dt"
  by (cases r) (auto simp: one_error)

section \<open>Concrete runs\<close>

text \<open>The definitions a run on the stand-in library unfolds.\<close>

lemmas run_defs =
  maybe_emit_assistant_turn_def turn_key_def msg_key_def linked_user_key_def
  get_def get_default_def str_or_empty_def py_or_def py_str_def
  build_turn_details_def extract_text_from_parts_def start_or_now_def parse_dt_def
  loop_body_def text_part_def stub_lib_def stub_world_def failing_world_def empty_state_def
  assemble_text_def row_key_def strip_def is_space_def tool_key_def reasoning_key_def
  emit_turn_trace_def purge_turn_def iso_now_def iso_def int_str_def digits.simps
  char_of_eq_iff Let_def event_captured_at_def event_obj_def event_props_def
  message_info_def event_part_def message_event_def part_event_def is_older_event_def
  stub_fromisoformat_def lower_def lower_char_def

section \<open>C1: at most one emission per turn\<close>

lemma emission_of_quiet [simp]:
  "emission_of L W s0 sid mid ([], Inl e)"
  "emitted s = emitted s0 \<Longrightarrow> emission_of L W s0 sid mid ([], Inr s)"
  by (simp_all add: emission_of_def)







lemma calls_for_append [simp]:
  "calls_for sid mid (xs @ ys) = calls_for sid mid xs @ calls_for sid mid ys"
  by (simp add: calls_for_def)








section \<open>C2: a failing sink\<close>

lemma start_or_now_sink [simp]:
  "start_or_now L (W\<lparr> sink_ok := f \<rparr>) k p = start_or_now L W k p"
  by (simp add: start_or_now_def split: sum.splits option.splits)

lemma build_rows_sink [simp]:
  "build_rows L (W\<lparr> sink_ok := f \<rparr>) k parts acc = build_rows L W k parts acc"
  by (induction parts arbitrary: k acc) (auto split: sum.splits)

lemma extract_rows_sink [simp]:
  "extract_rows L (W\<lparr> sink_ok := f \<rparr>) k parts rows = extract_rows L W k parts rows"
  by (induction parts arbitrary: k rows) (auto simp: Let_def split: sum.splits json.splits)

lemma iso_now_sink [simp]: "iso_now L (W\<lparr> sink_ok := f \<rparr>) = iso_now L W"
  by (simp add: iso_now_def)





section \<open>C3: monotonic acceptance\<close>







section \<open>C4: empty turns\<close>



section \<open>C5: the purge after an emission\<close>

text \<open>
  Claim C5. After a turn emission whose sink call succeeded, the state the gate returns has
  no entry for the assistant message key in \<^verbatim>\<open>assistant_parts\<close>, \<^verbatim>\<open>message_events\<close> and
  \<^verbatim>\<open>assistant_finish_seen\<close>, and, when the message names a parent, no entry for the user
  message key in \<^verbatim>\<open>user_parts\<close> and \<^verbatim>\<open>message_events\<close>.
\<close>

theorem buffers_purged_after_emission:
  assumes "maybe_emit_assistant_turn L W s sid mid info = ([(c, True)], r)"
  shows "\<exists>s'. r = Inr s'
     \<and> map_of (assistant_parts s') (msg_key sid mid) = None
     \<and> map_of (message_events s') (msg_key sid mid) = None
     \<and> map_of (assistant_finish_seen s') (msg_key sid mid) = None
     \<and> (str_or_empty L (get info ''parentID'') \<noteq> [] \<longrightarrow>
          map_of (user_parts s') (msg_key sid (str_or_empty L (get info ''parentID''))) = None
          \<and> map_of (message_events s') (msg_key sid (str_or_empty L (get info ''parentID''))) = None)"
  using maybe_emit_cases [of L W s sid mid info] assms
  by (auto simp: purge_turn_buffers delete_conv' linked_user_key_def Let_def)

theorem buffers_purged_after_emission_witness:
  "maybe_emit_assistant_turn stub_lib stub_world
     (empty_state\<lparr> user_parts := [(''s1:u1'', [(''q1'', JObj (text_part ''q1'' ''u1'' ''hi'' 1))])],
                   assistant_parts := [(''s1:a1'', [(''p1'', JObj (text_part ''p1'' ''a1'' ''hello'' 2))])] \<rparr>)
     ''s1'' ''a1'' [(''id'', JStr ''a1''), (''parentID'', JStr ''u1'')]
   = ([(\<lparr> tc_session_id = ''s1'', tc_message_id = ''a1'', tc_user_info = [],
          tc_assistant_info = [(''id'', JStr ''a1''), (''parentID'', JStr ''u1'')],
          tc_user_message_events = [], tc_assistant_message_events = [],
          tc_user_parts = [(''q1'', JObj (text_part ''q1'' ''u1'' ''hi'' 1))],
          tc_assistant_parts = [(''p1'', JObj (text_part ''p1'' ''a1'' ''hello'' 2))],
          tc_input_text = ''hi'', tc_output_text = ''hello'', tc_reasoning = [], tc_tools = [] \<rparr>,
        True)],
      Inr (empty_state\<lparr> emitted := [(''s1:a1'', JStr ''@7'')] \<rparr>))
   \<and> str_or_empty stub_lib (get [(''id'', JStr ''a1''), (''parentID'', JStr ''u1'')] ''parentID'') = ''u1''
   \<and> map_of (assistant_parts (empty_state\<lparr> emitted := [(''s1:a1'', JStr ''@7'')] \<rparr>)) (msg_key ''s1'' ''a1'') = None
   \<and> map_of (message_events (empty_state\<lparr> emitted := [(''s1:a1'', JStr ''@7'')] \<rparr>)) (msg_key ''s1'' ''a1'') = None
   \<and> map_of (assistant_finish_seen (empty_state\<lparr> emitted := [(''s1:a1'', JStr ''@7'')] \<rparr>)) (msg_key ''s1'' ''a1'') = None
   \<and> map_of (user_parts (empty_state\<lparr> emitted := [(''s1:a1'', JStr ''@7'')] \<rparr>)) (msg_key ''s1'' ''u1'') = None
   \<and> map_of (message_events (empty_state\<lparr> emitted := [(''s1:a1'', JStr ''@7'')] \<rparr>)) (msg_key ''s1'' ''u1'') = None"
proof -
  let ?s = "empty_state\<lparr> user_parts := [(''s1:u1'', [(''q1'', JObj (text_part ''q1'' ''u1'' ''hi'' 1))])],
                   assistant_parts := [(''s1:a1'', [(''p1'', JObj (text_part ''p1'' ''a1'' ''hello'' 2))])] \<rparr>"
  let ?info = "[(''id'', JStr ''a1''), (''parentID'', JStr ''u1'')]"
  let ?c = "\<lparr> tc_session_id = ''s1'', tc_message_id = ''a1'', tc_user_info = [],
          tc_assistant_info = ?info,
          tc_user_message_events = [], tc_assistant_message_events = [],
          tc_user_parts = [(''q1'', JObj (text_part ''q1'' ''u1'' ''hi'' 1))],
          tc_assistant_parts = [(''p1'', JObj (text_part ''p1'' ''a1'' ''hello'' 2))],
          tc_input_text = ''hi'', tc_output_text = ''hello'', tc_reasoning = [], tc_tools = [] \<rparr>"
  let ?s' = "empty_state\<lparr> emitted := [(''s1:a1'', JStr ''@7'')] \<rparr>"
  have run: "maybe_emit_assistant_turn stub_lib stub_world ?s ''s1'' ''a1'' ?info = ([(?c, True)], Inr ?s')"
    by (simp add: run_defs)
  have parent: "str_or_empty stub_lib (get ?info ''parentID'') = ''u1''"
    by (simp add: run_defs)
  from buffers_purged_after_emission [OF run] parent run show ?thesis by auto
qed

section \<open>C6: pending text parts and the role\<close>

lemma str_or_empty_falsy: "\<not> truthy v \<Longrightarrow> str_or_empty L v = []"
  by (simp add: str_or_empty_def py_or_def py_str_def)

lemma lower_Nil [simp]: "lower [] = []"
  by (simp add: lower_def)

lemma map_of_store_part [simp]:
  "map_of (get_default (store_part bucket key pid part) key []) pid = Some part"
  by (simp add: store_part_def update_conv')

lemma dict_update_distinct:
  "distinct (map fst other) \<Longrightarrow>
     map_of (dict_update d other) k = (case map_of other k of Some v \<Rightarrow> Some v | None \<Rightarrow> map_of d k)"
proof (induction other arbitrary: d)
  case Nil
  show ?case by (simp add: dict_update_def)
next
  case (Cons x xs)
  have step: "dict_update d (x # xs) = dict_update (AList.update (fst x) (snd x) d) xs"
    by (simp add: dict_update_def)
  from Cons.prems have d: "distinct (map fst xs)" and nin: "fst x \<notin> fst ` set xs" by auto
  from nin have none: "map_of xs (fst x) = None" by (simp add: map_of_eq_None_iff)
  show ?case
    unfolding step Cons.IH [OF d]
    by (cases x) (use none in \<open>auto simp: update_conv' split: option.splits\<close>)
qed

lemma reconcile_pending_moves:
  assumes "distinct (map fst pend)" and "map_of (pending_parts s) key = Some pend"
    and "map_of pend pid = Some part"
  shows "map_of (pending_parts (reconcile_pending s key role)) key =
           (if role = ''assistant'' \<or> role = ''user'' then None else Some pend)"
    and "role = ''user'' \<Longrightarrow>
           map_of (get_default (user_parts (reconcile_pending s key role)) key []) pid = Some part
           \<and> assistant_parts (reconcile_pending s key role) = assistant_parts s"
    and "role = ''assistant'' \<Longrightarrow>
           map_of (get_default (assistant_parts (reconcile_pending s key role)) key []) pid = Some part
           \<and> user_parts (reconcile_pending s key role) = user_parts s"
proof -
  from assms(3) have ne: "pend \<noteq> []" by auto
  from assms(2) have g: "get_default (pending_parts s) key [] = pend"
    by (simp add: get_default_def)
  show "map_of (pending_parts (reconcile_pending s key role)) key =
           (if role = ''assistant'' \<or> role = ''user'' then None else Some pend)"
    using ne g by (auto simp: reconcile_pending_def Let_def delete_conv' update_conv')
  show "role = ''user'' \<Longrightarrow>
           map_of (get_default (user_parts (reconcile_pending s key role)) key []) pid = Some part
           \<and> assistant_parts (reconcile_pending s key role) = assistant_parts s"
    using ne g assms(1,3) by (simp add: reconcile_pending_def Let_def dict_update_distinct)
  show "role = ''assistant'' \<Longrightarrow>
           map_of (get_default (assistant_parts (reconcile_pending s key role)) key []) pid = Some part
           \<and> user_parts (reconcile_pending s key role) = user_parts s"
    using ne g assms(1,3) by (simp add: reconcile_pending_def Let_def dict_update_distinct)
qed

text \<open>
  Claim C6 as stated fails in its symmetric half: after a text part \<^verbatim>\<open>hello\<close> for a
  message of unknown role, an accepted \<^verbatim>\<open>message.updated\<close> with role assistant and the
  completion flag set emits the turn in the same call, and \<^verbatim>\<open>assistant_parts\<close> has no
  entry for the message afterwards.
\<close>

theorem completed_assistant_message_leaves_no_buffered_part:
  "handle_message_part_updated stub_lib stub_world empty_state
     (part_event 1 (text_part ''p1'' ''a1'' ''hello'' 1)) ''s1''
   = ([], Inr (empty_state\<lparr> pending_parts := [(''s1:a1'', [(''p1'', JObj (text_part ''p1'' ''a1'' ''hello'' 1))])],
                           part_last_seen := [(''s1:a1:p1'', JStr ''@1000000'')] \<rparr>))
   \<and> handle_message_updated stub_lib stub_world
       (empty_state\<lparr> pending_parts := [(''s1:a1'', [(''p1'', JObj (text_part ''p1'' ''a1'' ''hello'' 1))])],
                     part_last_seen := [(''s1:a1:p1'', JStr ''@1000000'')] \<rparr>)
       (message_event 2 [(''id'', JStr ''a1''), (''role'', JStr ''assistant''),
                         (''time'', JObj [(''completed'', JInt 5)])]) ''s1''
   = ([(\<lparr> tc_session_id = ''s1'', tc_message_id = ''a1'', tc_user_info = [],
          tc_assistant_info = [(''id'', JStr ''a1''), (''role'', JStr ''assistant''),
                               (''time'', JObj [(''completed'', JInt 5)])],
          tc_user_message_events = [],
          tc_assistant_message_events =
            [JObj [(''captured_at'', JStr ''@7''),
                   (''info'', JObj [(''id'', JStr ''a1''), (''role'', JStr ''assistant''),
                                    (''time'', JObj [(''completed'', JInt 5)])])]],
          tc_user_parts = [],
          tc_assistant_parts = [(''p1'', JObj (text_part ''p1'' ''a1'' ''hello'' 1))],
          tc_input_text = [], tc_output_text = ''hello'', tc_reasoning = [], tc_tools = [] \<rparr>,
        True)],
      Inr (empty_state\<lparr> messages := [(''s1:a1'', JObj [(''id'', JStr ''a1''), (''role'', JStr ''assistant''),
                                                       (''time'', JObj [(''completed'', JInt 5)])])],
                        message_last_seen := [(''s1:a1'', JStr ''@2000000'')],
                        part_last_seen := [(''s1:a1:p1'', JStr ''@1000000'')],
                        emitted := [(''s1:a1'', JStr ''@7'')] \<rparr>))
   \<and> map_of (assistant_parts
        (empty_state\<lparr> messages := [(''s1:a1'', JObj [(''id'', JStr ''a1''), (''role'', JStr ''assistant''),
                                                   (''time'', JObj [(''completed'', JInt 5)])])],
                      message_last_seen := [(''s1:a1'', JStr ''@2000000'')],
                      part_last_seen := [(''s1:a1:p1'', JStr ''@1000000'')],
                      emitted := [(''s1:a1'', JStr ''@7'')] \<rparr>)) ''s1:a1'' = None"
  by (simp add: handle_message_part_updated_def handle_message_updated_def run_defs
      infer_role_def structural_types_def store_part_def reconcile_pending_def
      append_message_event_def dict_update_def slice_from_def)

text \<open>
  Claim C6, as amended. Let a message have no stored role and its turn not be emitted. An
  accepted text part for it is buffered in \<^verbatim>\<open>pending_parts\<close> under the message key and
  the part id. When the next event is an accepted \<^verbatim>\<open>message.updated\<close> for the message:
  with role user the part is in \<^verbatim>\<open>user_parts\<close> under that key, \<^verbatim>\<open>pending_parts\<close> has
  no entry for the key and \<^verbatim>\<open>assistant_parts\<close> is as before; with role assistant and no
  completion flag the part is in \<^verbatim>\<open>assistant_parts\<close> under that key, \<^verbatim>\<open>pending_parts\<close>
  has no entry for the key and \<^verbatim>\<open>user_parts\<close> is as before; with role assistant and the
  completion flag the handler moves the part to \<^verbatim>\<open>assistant_parts\<close> in the same way and
  ends in the emission gate run on that state.
\<close>

theorem pending_text_part_follows_the_role:
  assumes "str_or_empty L (get (event_part payload1) ''messageID'') = mid" and "mid \<noteq> []"
    and "str_or_empty L (get (event_part payload1) ''id'') = pid" and "pid \<noteq> []"
    and "event_captured_at L W1 payload1 = Inr dt1"
    and "is_older_event L (part_last_seen s) (msg_key sid mid @ '':'' @ pid) dt1 = Inr False"
    and "\<not> truthy (get (emitted s) (turn_key L sid mid))"
    and "\<not> truthy (get (as_dict (get (messages s) (msg_key sid mid))) ''role'')"
    and "has_type (event_part payload1) ''text''"
    and "distinct (map fst (get_default (pending_parts s) (msg_key sid mid) []))"
    and "str_or_empty L (get (message_info payload2) ''id'') = mid"
    and "event_captured_at L W2 payload2 = Inr dt2"
    and "is_older_event L (message_last_seen s) (msg_key sid mid) dt2 = Inr False"
  shows "\<exists>s1. handle_message_part_updated L W1 s payload1 sid = ([], Inr s1)
     \<and> map_of (get_default (pending_parts s1) (msg_key sid mid) []) pid = Some (JObj (event_part payload1))
     \<and> (lower (str_or_empty L (get (message_info payload2) ''role'')) = ''user'' \<longrightarrow>
          (\<exists>s2. handle_message_updated L W2 s1 payload2 sid = ([], Inr s2)
             \<and> map_of (get_default (user_parts s2) (msg_key sid mid) []) pid
                 = Some (JObj (event_part payload1))
             \<and> map_of (pending_parts s2) (msg_key sid mid) = None
             \<and> assistant_parts s2 = assistant_parts s))
     \<and> (lower (str_or_empty L (get (message_info payload2) ''role'')) = ''assistant''
        \<and> \<not> truthy (get (as_dict (get (message_info payload2) ''time'')) ''completed'') \<longrightarrow>
          (\<exists>s2. handle_message_updated L W2 s1 payload2 sid = ([], Inr s2)
             \<and> map_of (get_default (assistant_parts s2) (msg_key sid mid) []) pid
                 = Some (JObj (event_part payload1))
             \<and> map_of (pending_parts s2) (msg_key sid mid) = None
             \<and> user_parts s2 = user_parts s))
     \<and> (lower (str_or_empty L (get (message_info payload2) ''role'')) = ''assistant''
        \<and> truthy (get (as_dict (get (message_info payload2) ''time'')) ''completed'') \<longrightarrow>
          (\<exists>s2. handle_message_updated L W2 s1 payload2 sid
                 = maybe_emit_assistant_turn L W2 s2 sid mid (message_info payload2)
             \<and> map_of (get_default (assistant_parts s2) (msg_key sid mid) []) pid
                 = Some (JObj (event_part payload1))
             \<and> map_of (pending_parts s2) (msg_key sid mid) = None))"
proof -
  let ?key = "msg_key sid mid"
  let ?part = "JObj (event_part payload1)"
  let ?pend = "AList.update pid ?part (get_default (pending_parts s) ?key [])"
  let ?s1 = "(accepted_part L s (?key @ '':'' @ pid) dt1)
               \<lparr> pending_parts := store_part (pending_parts s) ?key pid ?part \<rparr>"
  let ?role = "lower (str_or_empty L (get (message_info payload2) ''role''))"
  let ?s3 = "append_message_event L W2 (accepted_message L ?s1 (message_info payload2) ?key dt2)
               ?key (message_info payload2)"
  let ?s4 = "reconcile_pending ?s3 ?key ?role"
  have role: "lower (str_or_empty L (get (as_dict (get (messages s) ?key)) ''role'')) = []"
    using assms(8) by (simp add: str_or_empty_falsy)
  have inf: "infer_role [] (str_or_empty L (get (event_part payload1) ''type'')) = None"
    using assms(9) by (simp add: has_type_def infer_role_def structural_types_def)
  have first: "handle_message_part_updated L W1 s payload1 sid = ([], Inr ?s1)"
    unfolding hpu_accepted [OF assms(1-6)] Let_def using assms(7) by (simp add: role inf)
  have pend: "map_of (pending_parts ?s3) ?key = Some ?pend"
    by (simp add: store_part_def update_conv')
  have dist: "distinct (map fst ?pend)"
    using assms(10) by (simp add: distinct_update)
  have inp: "map_of ?pend pid = Some ?part"
    by (simp add: update_conv')
  note moves = reconcile_pending_moves [OF dist pend inp, of ?role]
  have older: "is_older_event L (message_last_seen ?s1) ?key dt2 = Inr False"
    using assms(13) by simp
  have notem: "\<not> truthy (get (emitted ?s1) (turn_key L sid mid))"
    using assms(7) by simp
  note second = hmu_accepted [OF assms(11) assms(2) assms(12) older]
  have user: "?role = ''user'' \<Longrightarrow>
      handle_message_updated L W2 ?s1 payload2 sid = ([], Inr ?s4)"
    unfolding second Let_def by simp
  have asst: "?role = ''assistant'' \<Longrightarrow>
      \<not> truthy (get (as_dict (get (message_info payload2) ''time'')) ''completed'') \<Longrightarrow>
      handle_message_updated L W2 ?s1 payload2 sid = ([], Inr ?s4)"
    unfolding second Let_def using notem by simp
  have compl: "?role = ''assistant'' \<Longrightarrow>
      truthy (get (as_dict (get (message_info payload2) ''time'')) ''completed'') \<Longrightarrow>
      handle_message_updated L W2 ?s1 payload2 sid =
        maybe_emit_assistant_turn L W2
          (?s4\<lparr> assistant_finish_seen :=
                  AList.update ?key (iso_now L W2) (assistant_finish_seen ?s1) \<rparr>)
          sid mid (message_info payload2)"
    unfolding second Let_def using notem by simp
  have keep_a: "?role = ''user'' \<Longrightarrow> assistant_parts ?s4 = assistant_parts s"
    using moves(2) by simp
  have keep_u: "?role = ''assistant'' \<Longrightarrow> user_parts ?s4 = user_parts s"
    using moves(3) by simp
  show ?thesis
  proof (rule exI [of _ ?s1], intro conjI impI)
    show "handle_message_part_updated L W1 s payload1 sid = ([], Inr ?s1)" by (rule first)
    show "map_of (get_default (pending_parts ?s1) ?key []) pid = Some ?part" by simp
  next
    assume r: "?role = ''user''"
    show "\<exists>s2. handle_message_updated L W2 ?s1 payload2 sid = ([], Inr s2)
             \<and> map_of (get_default (user_parts s2) ?key []) pid = Some ?part
             \<and> map_of (pending_parts s2) ?key = None
             \<and> assistant_parts s2 = assistant_parts s"
      using user [OF r] moves(1) moves(2) [OF r] keep_a [OF r] r
      by (intro exI [of _ ?s4]) simp
  next
    assume r: "?role = ''assistant''
        \<and> \<not> truthy (get (as_dict (get (message_info payload2) ''time'')) ''completed'')"
    show "\<exists>s2. handle_message_updated L W2 ?s1 payload2 sid = ([], Inr s2)
             \<and> map_of (get_default (assistant_parts s2) ?key []) pid = Some ?part
             \<and> map_of (pending_parts s2) ?key = None
             \<and> user_parts s2 = user_parts s"
      using asst moves(1) moves(3) keep_u r
      by (intro exI [of _ ?s4]) simp
  next
    assume r: "?role = ''assistant''
        \<and> truthy (get (as_dict (get (message_info payload2) ''time'')) ''completed'')"
    show "\<exists>s2. handle_message_updated L W2 ?s1 payload2 sid
                 = maybe_emit_assistant_turn L W2 s2 sid mid (message_info payload2)
             \<and> map_of (get_default (assistant_parts s2) ?key []) pid = Some ?part
             \<and> map_of (pending_parts s2) ?key = None"
      using compl moves(1) moves(3) r
      by (intro exI [of _ "?s4\<lparr> assistant_finish_seen :=
                  AList.update ?key (iso_now L W2) (assistant_finish_seen ?s1) \<rparr>"]) simp
  qed
qed

theorem pending_text_part_follows_the_role_witness:
  "(\<exists>s1. handle_message_part_updated stub_lib stub_world empty_state
            (part_event 1 (text_part ''p1'' ''m1'' ''hello'' 1)) ''s1'' = ([], Inr s1)
      \<and> map_of (get_default (pending_parts s1) (msg_key ''s1'' ''m1'') []) ''p1''
          = Some (JObj (text_part ''p1'' ''m1'' ''hello'' 1))
      \<and> (\<exists>s2. handle_message_updated stub_lib stub_world s1
                 (message_event 2 [(''id'', JStr ''m1''), (''role'', JStr ''user'')]) ''s1''
               = ([], Inr s2)
           \<and> map_of (get_default (user_parts s2) (msg_key ''s1'' ''m1'') []) ''p1''
               = Some (JObj (text_part ''p1'' ''m1'' ''hello'' 1))
           \<and> map_of (pending_parts s2) (msg_key ''s1'' ''m1'') = None
           \<and> assistant_parts s2 = []))
   \<and> (\<exists>s1. handle_message_part_updated stub_lib stub_world empty_state
            (part_event 1 (text_part ''p1'' ''m1'' ''hello'' 1)) ''s1'' = ([], Inr s1)
      \<and> (\<exists>s2. handle_message_updated stub_lib stub_world s1
                 (message_event 2 [(''id'', JStr ''m1''), (''role'', JStr ''assistant'')]) ''s1''
               = ([], Inr s2)
           \<and> map_of (get_default (assistant_parts s2) (msg_key ''s1'' ''m1'') []) ''p1''
               = Some (JObj (text_part ''p1'' ''m1'' ''hello'' 1))
           \<and> map_of (pending_parts s2) (msg_key ''s1'' ''m1'') = None
           \<and> user_parts s2 = []))"
proof -
  let ?part = "text_part ''p1'' ''m1'' ''hello'' 1"
  let ?ev = "part_event 1 ?part"
  let ?user = "message_event 2 [(''id'', JStr ''m1''), (''role'', JStr ''user'')]"
  let ?asst = "message_event 2 [(''id'', JStr ''m1''), (''role'', JStr ''assistant'')]"
  have part: "event_part ?ev = ?part" by (simp add: run_defs)
  have a1: "str_or_empty stub_lib (get (event_part ?ev) ''messageID'') = ''m1''"
    and a3: "str_or_empty stub_lib (get (event_part ?ev) ''id'') = ''p1''"
    and a5: "event_captured_at stub_lib stub_world ?ev = Inr 1000000"
    and a6: "is_older_event stub_lib (part_last_seen empty_state)
               (msg_key ''s1'' ''m1'' @ '':'' @ ''p1'') 1000000 = Inr False"
    and a7: "\<not> truthy (get (emitted empty_state) (turn_key stub_lib ''s1'' ''m1''))"
    and a8: "\<not> truthy (get (as_dict (get (messages empty_state) (msg_key ''s1'' ''m1''))) ''role'')"
    and a9: "has_type (event_part ?ev) ''text''"
    and a10: "distinct (map fst (get_default (pending_parts empty_state) (msg_key ''s1'' ''m1'') []))"
    by (simp_all add: run_defs has_type_def)
  have u11: "str_or_empty stub_lib (get (message_info ?user) ''id'') = ''m1''"
    and u12: "event_captured_at stub_lib stub_world ?user = Inr 2000000"
    and ur: "lower (str_or_empty stub_lib (get (message_info ?user) ''role'')) = ''user''"
    and b11: "str_or_empty stub_lib (get (message_info ?asst) ''id'') = ''m1''"
    and b12: "event_captured_at stub_lib stub_world ?asst = Inr 2000000"
    and br: "lower (str_or_empty stub_lib (get (message_info ?asst) ''role'')) = ''assistant''"
    and bc: "\<not> truthy (get (as_dict (get (message_info ?asst) ''time'')) ''completed'')"
    and a13: "is_older_event stub_lib (message_last_seen empty_state) (msg_key ''s1'' ''m1'') 2000000
               = Inr False"
    by (simp_all add: run_defs)
  have e: "assistant_parts empty_state = []" "user_parts empty_state = []"
    by (simp_all add: empty_state_def)
  note u = pending_text_part_follows_the_role [OF a1 _ a3 _ a5 a6 a7 a8 a9 a10 u11 u12 a13]
  note b = pending_text_part_follows_the_role [OF a1 _ a3 _ a5 a6 a7 a8 a9 a10 b11 b12 a13]
  from u ur have "\<exists>s1. handle_message_part_updated stub_lib stub_world empty_state ?ev ''s1'' = ([], Inr s1)
      \<and> map_of (get_default (pending_parts s1) (msg_key ''s1'' ''m1'') []) ''p1'' = Some (JObj ?part)
      \<and> (\<exists>s2. handle_message_updated stub_lib stub_world s1 ?user ''s1'' = ([], Inr s2)
           \<and> map_of (get_default (user_parts s2) (msg_key ''s1'' ''m1'') []) ''p1'' = Some (JObj ?part)
           \<and> map_of (pending_parts s2) (msg_key ''s1'' ''m1'') = None
           \<and> assistant_parts s2 = [])"
    by (simp add: part e)
  moreover from b br bc have "\<exists>s1. handle_message_part_updated stub_lib stub_world empty_state ?ev ''s1'' = ([], Inr s1)
      \<and> (\<exists>s2. handle_message_updated stub_lib stub_world s1 ?asst ''s1'' = ([], Inr s2)
           \<and> map_of (get_default (assistant_parts s2) (msg_key ''s1'' ''m1'') []) ''p1'' = Some (JObj ?part)
           \<and> map_of (pending_parts s2) (msg_key ''s1'' ''m1'') = None
           \<and> user_parts s2 = [])"
    by (simp add: part e) blast
  ultimately show ?thesis by blast
qed

section \<open>C7 and C8: the assembled text and tool list\<close>




section \<open>C9: parts of other types under an unknown role\<close>

text \<open>
  Claim C9. A part event with message id and part id that is accepted (not older than the
  last-seen value of its composite key) for a turn not yet emitted, whose message has no
  stored role and whose part type is neither \<^verbatim>\<open>text\<close> nor one of the structural assistant
  types, stores the part in \<^verbatim>\<open>user_parts\<close> under the message key and the part id, and
  leaves \<^verbatim>\<open>pending_parts\<close> and \<^verbatim>\<open>assistant_parts\<close> as they are.
\<close>

theorem unknown_role_other_part_goes_to_user_parts:
  assumes "str_or_empty L (get (event_part payload) ''messageID'') = mid" and "mid \<noteq> []"
    and "str_or_empty L (get (event_part payload) ''id'') = pid" and "pid \<noteq> []"
    and "event_captured_at L W payload = Inr dt"
    and "is_older_event L (part_last_seen s) (msg_key sid mid @ '':'' @ pid) dt = Inr False"
    and "\<not> truthy (get (emitted s) (turn_key L sid mid))"
    and "\<not> truthy (get (as_dict (get (messages s) (msg_key sid mid))) ''role'')"
    and "str_or_empty L (get (event_part payload) ''type'') \<notin> set (''text'' # structural_types)"
  shows "\<exists>s'. handle_message_part_updated L W s payload sid = ([], Inr s')
     \<and> map_of (get_default (user_parts s') (msg_key sid mid) []) pid = Some (JObj (event_part payload))
     \<and> pending_parts s' = pending_parts s
     \<and> assistant_parts s' = assistant_parts s"
proof -
  have role: "lower (str_or_empty L (get (as_dict (get (messages s) (msg_key sid mid))) ''role'')) = []"
    using assms(8) by (simp add: str_or_empty_falsy)
  have inf: "infer_role [] (str_or_empty L (get (event_part payload) ''type'')) = Some []"
    using assms(9) by (simp add: infer_role_def)
  show ?thesis
    unfolding hpu_accepted [OF assms(1-6)] Let_def
    using assms(7) by (simp add: role inf)
qed

theorem unknown_role_other_part_goes_to_user_parts_witness:
  "event_captured_at stub_lib stub_world
      (part_event 1 [(''id'', JStr ''f1''), (''messageID'', JStr ''u1''), (''type'', JStr ''file'')])
     = Inr 1000000
   \<and> is_older_event stub_lib (part_last_seen empty_state) (msg_key ''s1'' ''u1'' @ '':'' @ ''f1'') 1000000
     = Inr False
   \<and> \<not> truthy (get (emitted empty_state) (turn_key stub_lib ''s1'' ''u1''))
   \<and> \<not> truthy (get (as_dict (get (messages empty_state) (msg_key ''s1'' ''u1''))) ''role'')
   \<and> (\<exists>s'. handle_message_part_updated stub_lib stub_world empty_state
         (part_event 1 [(''id'', JStr ''f1''), (''messageID'', JStr ''u1''), (''type'', JStr ''file'')])
         ''s1'' = ([], Inr s')
       \<and> map_of (get_default (user_parts s') (msg_key ''s1'' ''u1'') []) ''f1''
           = Some (JObj [(''id'', JStr ''f1''), (''messageID'', JStr ''u1''), (''type'', JStr ''file'')])
       \<and> pending_parts s' = [] \<and> assistant_parts s' = [])"
proof -
  let ?part = "[(''id'', JStr ''f1''), (''messageID'', JStr ''u1''), (''type'', JStr ''file'')]"
  let ?ev = "part_event 1 ?part"
  have part: "event_part ?ev = ?part" by (simp add: run_defs)
  have a1: "str_or_empty stub_lib (get (event_part ?ev) ''messageID'') = ''u1''"
    and a3: "str_or_empty stub_lib (get (event_part ?ev) ''id'') = ''f1''"
    and a5: "event_captured_at stub_lib stub_world ?ev = Inr 1000000"
    and a6: "is_older_event stub_lib (part_last_seen empty_state)
               (msg_key ''s1'' ''u1'' @ '':'' @ ''f1'') 1000000 = Inr False"
    and a7: "\<not> truthy (get (emitted empty_state) (turn_key stub_lib ''s1'' ''u1''))"
    and a8: "\<not> truthy (get (as_dict (get (messages empty_state) (msg_key ''s1'' ''u1''))) ''role'')"
    and a9: "str_or_empty stub_lib (get (event_part ?ev) ''type'') \<notin> set (''text'' # structural_types)"
    by (simp_all add: run_defs structural_types_def)
  have e: "pending_parts empty_state = []" "assistant_parts empty_state = []"
    by (simp_all add: empty_state_def)
  from unknown_role_other_part_goes_to_user_parts [OF a1 _ a3 _ a5 a6 a7 a8 a9]
  have "\<exists>s'. handle_message_part_updated stub_lib stub_world empty_state ?ev ''s1'' = ([], Inr s')
     \<and> map_of (get_default (user_parts s') (msg_key ''s1'' ''u1'') []) ''f1'' = Some (JObj (event_part ?ev))
     \<and> pending_parts s' = pending_parts empty_state
     \<and> assistant_parts s' = assistant_parts empty_state"
    by simp
  then show ?thesis using a5 a6 a7 a8 by (simp add: part e)
qed

section \<open>C10: the maps that only grow\<close>

lemma keys_persist_maybe_emit [simp]:
  "A \<subseteq> keys (message_last_seen s) \<Longrightarrow> A \<subseteq> keys (message_last_seen s0) \<Longrightarrow>
     A \<subseteq> keys (message_last_seen (persist s0 (maybe_emit_assistant_turn L W s sid mid info)))"
  "A \<subseteq> keys (part_last_seen s) \<Longrightarrow> A \<subseteq> keys (part_last_seen s0) \<Longrightarrow>
     A \<subseteq> keys (part_last_seen (persist s0 (maybe_emit_assistant_turn L W s sid mid info)))"
  "A \<subseteq> keys (messages s) \<Longrightarrow> A \<subseteq> keys (messages s0) \<Longrightarrow>
     A \<subseteq> keys (messages (persist s0 (maybe_emit_assistant_turn L W s sid mid info)))"
  "A \<subseteq> keys (emitted s) \<Longrightarrow> A \<subseteq> keys (emitted s0) \<Longrightarrow>
     A \<subseteq> keys (emitted (persist s0 (maybe_emit_assistant_turn L W s sid mid info)))"
  by (rule persist_maybe_emit; auto)+

lemma watermarks_message_updated:
  "watermarks_kept s (persist s (handle_message_updated L W s payload sid))"
proof (cases "str_or_empty L (get (message_info payload) ''id'') = []")
  case True
  then show ?thesis by (simp add: hmu_no_id watermarks_kept_def)
next
  case False
  show ?thesis
  proof (cases "event_captured_at L W payload" rule: sum_time_cases)
    case raise
    then show ?thesis using False by (simp add: hmu_no_time watermarks_kept_def)
  next
    case (at dt)
    show ?thesis
    proof (cases "is_older_event L (message_last_seen s)
        (msg_key sid (str_or_empty L (get (message_info payload) ''id''))) dt" rule: sum_bool_cases)
      case raise
      then show ?thesis using False at by (simp add: hmu_stale_raise watermarks_kept_def)
    next
      case yes
      then show ?thesis using False at by (simp add: hmu_stale watermarks_kept_def)
    next
      case no
      show ?thesis
        by (simp add: hmu_accepted [OF refl False at no] Let_def watermarks_kept_def subset_insertI)
    qed
  qed
qed

lemma watermarks_part_updated:
  "watermarks_kept s (persist s (handle_message_part_updated L W s payload sid))"
proof (cases "str_or_empty L (get (event_part payload) ''messageID'') = []
    \<or> str_or_empty L (get (event_part payload) ''id'') = []")
  case True
  then show ?thesis by (simp add: hpu_no_id watermarks_kept_def)
next
  case False
  then have m: "str_or_empty L (get (event_part payload) ''messageID'') \<noteq> []"
    and p: "str_or_empty L (get (event_part payload) ''id'') \<noteq> []" by auto
  show ?thesis
  proof (cases "event_captured_at L W payload" rule: sum_time_cases)
    case raise
    then show ?thesis using m p by (simp add: hpu_no_time watermarks_kept_def)
  next
    case (at dt)
    show ?thesis
    proof (cases "is_older_event L (part_last_seen s)
        (msg_key sid (str_or_empty L (get (event_part payload) ''messageID'')) @ '':'' @
           str_or_empty L (get (event_part payload) ''id'')) dt" rule: sum_bool_cases)
      case raise
      then show ?thesis using m p at by (simp add: hpu_stale_raise watermarks_kept_def)
    next
      case yes
      then show ?thesis using m p at by (simp add: hpu_stale watermarks_kept_def)
    next
      case no
      show ?thesis
        by (simp add: hpu_accepted [OF refl m refl p at no] Let_def watermarks_kept_def
            subset_insertI split: option.splits)
    qed
  qed
qed

lemma maybe_emit_keeps:
  "message_last_seen (persist s (maybe_emit_assistant_turn L W s sid mid info)) = message_last_seen s
   \<and> part_last_seen (persist s (maybe_emit_assistant_turn L W s sid mid info)) = part_last_seen s
   \<and> messages (persist s (maybe_emit_assistant_turn L W s sid mid info)) = messages s
   \<and> pending_parts (persist s (maybe_emit_assistant_turn L W s sid mid info)) = pending_parts s
   \<and> keys (emitted s) \<subseteq> keys (emitted (persist s (maybe_emit_assistant_turn L W s sid mid info)))"
  by (rule persist_maybe_emit) auto

text \<open>
  Claim C10. No entry ever leaves \<^verbatim>\<open>message_last_seen\<close>, \<^verbatim>\<open>part_last_seen\<close>,
  \<^verbatim>\<open>messages\<close> or \<^verbatim>\<open>emitted\<close>: the key sets of the four maps in the state persisted
  after either handler contain those before it, the cleanup of an emitted message and the
  purge after an emission leave the four maps as they are, and the emission gate leaves
  the last-seen maps, the message records and the pending parts as they are and only adds
  to \<^verbatim>\<open>emitted\<close>.
\<close>

theorem watermarks_survive:
  "watermarks_kept s (persist s (handle_message_updated L W s payload sid))
   \<and> watermarks_kept s (persist s (handle_message_part_updated L W s payload sid))
   \<and> message_last_seen (cleanup_emitted_message_buffers s sid mid) = message_last_seen s
   \<and> part_last_seen (cleanup_emitted_message_buffers s sid mid) = part_last_seen s
   \<and> messages (cleanup_emitted_message_buffers s sid mid) = messages s
   \<and> emitted (cleanup_emitted_message_buffers s sid mid) = emitted s
   \<and> message_last_seen (purge_turn s ak uk) = message_last_seen s
   \<and> part_last_seen (purge_turn s ak uk) = part_last_seen s
   \<and> messages (purge_turn s ak uk) = messages s
   \<and> emitted (purge_turn s ak uk) = emitted s
   \<and> pending_parts (purge_turn s ak uk) = pending_parts s
   \<and> message_last_seen (persist s (maybe_emit_assistant_turn L W s sid mid info)) = message_last_seen s
   \<and> part_last_seen (persist s (maybe_emit_assistant_turn L W s sid mid info)) = part_last_seen s
   \<and> messages (persist s (maybe_emit_assistant_turn L W s sid mid info)) = messages s
   \<and> pending_parts (persist s (maybe_emit_assistant_turn L W s sid mid info)) = pending_parts s
   \<and> keys (emitted s) \<subseteq> keys (emitted (persist s (maybe_emit_assistant_turn L W s sid mid info)))"
  using watermarks_message_updated [of s L W payload sid]
    watermarks_part_updated [of s L W payload sid] maybe_emit_keeps [of s L W sid mid info]
  by simp

end
